theory Spec2Isabelle
  imports Main
begin

section \<open>Python values and exceptions\<close>

text \<open>
  The exceptions that the modelled functions raise, catch or let through.
  \<open>NexusHubException\<close> and its subclasses (core/exceptions/errors.py) carry a message,
  a status code and a details dictionary; the subclass constructors fix the status code.
  All other constructors stand for exception classes of the Python library and of the
  two third-party packages (jose, argon2); every one of them derives from \<open>Exception\<close>.
  \<open>DateRangeError\<close> stands for what the \<open>datetime\<close> module raises for a value outside
  its range (\<open>OverflowError\<close>, and for \<open>fromtimestamp\<close> also \<open>ValueError\<close> or \<open>OSError\<close>).
\<close>

datatype error_kind =
    AuthenticationError
  | AuthorizationError
  | NotFoundError
  | ValidationError

record nexus_exception =
  kind :: error_kind
  message :: string
  status_code :: int
  details :: "(string \<times> string) list"

datatype exn =
    Nexus nexus_exception
  | JWTError string
  | VerificationError
  | VerifyMismatchError
  | InvalidHashError
  | ValueError
  | TypeError
  | DateRangeError
  | OtherException string

text \<open>\<open>NexusHubException.__init__\<close>: \<open>self.details = details or {}\<close>.\<close>

definition NexusHubException ::
  "error_kind \<Rightarrow> string \<Rightarrow> int \<Rightarrow> (string \<times> string) list option \<Rightarrow> nexus_exception" where
  "NexusHubException k msg code dets =
     \<lparr>kind = k, message = msg, status_code = code,
      details = (case dets of None \<Rightarrow> [] | Some d \<Rightarrow> (if d = [] then [] else d))\<rparr>"

definition AuthenticationError_init :: "string \<Rightarrow> (string \<times> string) list option \<Rightarrow> exn" where
  "AuthenticationError_init msg dets = Nexus (NexusHubException AuthenticationError msg 401 dets)"

text \<open>\<open>NotFoundError.__init__\<close>: \<open>message = f"{resource} not found"\<close>.\<close>

definition NotFoundError_init :: "string \<Rightarrow> (string \<times> string) list option \<Rightarrow> exn" where
  "NotFoundError_init resource dets =
     Nexus (NexusHubException NotFoundError (resource @ '' not found'') 404 dets)"

section \<open>Permission catalogue (core/security/permissions.py)\<close>

datatype Permission =
    USER_READ | USER_WRITE | USER_DELETE
  | CONTACT_READ | CONTACT_WRITE | CONTACT_DELETE
  | COMPANY_READ | COMPANY_WRITE | COMPANY_DELETE
  | DEAL_READ | DEAL_WRITE | DEAL_DELETE
  | PROJECT_READ | PROJECT_WRITE | PROJECT_DELETE
  | TASK_READ | TASK_WRITE | TASK_DELETE
  | TEAM_READ | TEAM_WRITE | TEAM_DELETE
  | AI_USE | AI_ADMIN
  | PLUGIN_READ | PLUGIN_INSTALL | PLUGIN_MANAGE
  | ADMIN_READ | ADMIN_WRITE | SETTINGS_MANAGE | AUDIT_READ

datatype Role = SUPER_ADMIN | ADMIN | MANAGER | DEVELOPER | USER | GUEST

text \<open>\<open>list(Permission)\<close>: the members of the enumeration in definition order.\<close>

definition list_Permission :: "Permission list" where
  "list_Permission =
     [USER_READ, USER_WRITE, USER_DELETE,
      CONTACT_READ, CONTACT_WRITE, CONTACT_DELETE,
      COMPANY_READ, COMPANY_WRITE, COMPANY_DELETE,
      DEAL_READ, DEAL_WRITE, DEAL_DELETE,
      PROJECT_READ, PROJECT_WRITE, PROJECT_DELETE,
      TASK_READ, TASK_WRITE, TASK_DELETE,
      TEAM_READ, TEAM_WRITE, TEAM_DELETE,
      AI_USE, AI_ADMIN,
      PLUGIN_READ, PLUGIN_INSTALL, PLUGIN_MANAGE,
      ADMIN_READ, ADMIN_WRITE, SETTINGS_MANAGE, AUDIT_READ]"

text \<open>
  \<open>Role(role_str)\<close>: lookup of an enumeration member by its value; a string that is the
  value of no member raises \<open>ValueError\<close>.
\<close>

definition Role_of_value :: "string \<Rightarrow> exn + Role" where
  "Role_of_value role_str =
     (if role_str = ''super_admin'' then Inr SUPER_ADMIN
      else if role_str = ''admin'' then Inr ADMIN
      else if role_str = ''manager'' then Inr MANAGER
      else if role_str = ''developer'' then Inr DEVELOPER
      else if role_str = ''user'' then Inr USER
      else if role_str = ''guest'' then Inr GUEST
      else Inl ValueError)"

text \<open>The dictionary \<open>ROLE_PERMISSIONS\<close>, one key per role.\<close>

fun ROLE_PERMISSIONS :: "Role \<Rightarrow> Permission list option" where
  "ROLE_PERMISSIONS SUPER_ADMIN = Some list_Permission"
| "ROLE_PERMISSIONS ADMIN = Some
     [USER_READ, USER_WRITE,
      CONTACT_READ, CONTACT_WRITE, CONTACT_DELETE,
      COMPANY_READ, COMPANY_WRITE, COMPANY_DELETE,
      DEAL_READ, DEAL_WRITE, DEAL_DELETE,
      PROJECT_READ, PROJECT_WRITE, PROJECT_DELETE,
      TASK_READ, TASK_WRITE, TASK_DELETE,
      TEAM_READ, TEAM_WRITE, TEAM_DELETE,
      AI_USE, PLUGIN_READ, PLUGIN_INSTALL,
      ADMIN_READ, SETTINGS_MANAGE, AUDIT_READ]"
| "ROLE_PERMISSIONS MANAGER = Some
     [USER_READ,
      CONTACT_READ, CONTACT_WRITE,
      COMPANY_READ, COMPANY_WRITE,
      DEAL_READ, DEAL_WRITE,
      PROJECT_READ, PROJECT_WRITE,
      TASK_READ, TASK_WRITE,
      TEAM_READ, TEAM_WRITE,
      AI_USE, PLUGIN_READ]"
| "ROLE_PERMISSIONS DEVELOPER = Some
     [USER_READ, CONTACT_READ, COMPANY_READ, DEAL_READ,
      PROJECT_READ, PROJECT_WRITE,
      TASK_READ, TASK_WRITE,
      TEAM_READ, AI_USE, PLUGIN_READ]"
| "ROLE_PERMISSIONS USER = Some
     [USER_READ, CONTACT_READ, COMPANY_READ, DEAL_READ,
      PROJECT_READ, TASK_READ, TASK_WRITE,
      TEAM_READ, AI_USE]"
| "ROLE_PERMISSIONS GUEST = Some [PROJECT_READ, TASK_READ]"

text \<open>\<open>ROLE_PERMISSIONS.get(role, [])\<close>.\<close>

definition get_role_permissions :: "Role \<Rightarrow> Permission list" where
  "get_role_permissions role = (case ROLE_PERMISSIONS role of None \<Rightarrow> [] | Some ps \<Rightarrow> ps)"

text \<open>
  \<open>has_permission\<close>: the loop over \<open>user_roles\<close>; \<open>ValueError\<close> from \<open>Role(role_str)\<close> is
  caught and the loop continues; the first role that grants the permission returns.
\<close>

fun has_permission :: "string list \<Rightarrow> Permission \<Rightarrow> bool" where
  "has_permission [] required_permission = False"
| "has_permission (role_str # user_roles) required_permission =
     (case Role_of_value role_str of
        Inl e \<Rightarrow> has_permission user_roles required_permission
      | Inr role \<Rightarrow>
          (if required_permission \<in> set (get_role_permissions role) then True
           else has_permission user_roles required_permission))"

text \<open>
  \<open>get_user_permissions\<close>: the loop updates the set \<open>permissions\<close>, which starts empty.
\<close>

fun get_user_permissions_loop :: "string list \<Rightarrow> Permission set \<Rightarrow> Permission set" where
  "get_user_permissions_loop [] permissions = permissions"
| "get_user_permissions_loop (role_str # user_roles) permissions =
     (case Role_of_value role_str of
        Inl e \<Rightarrow> get_user_permissions_loop user_roles permissions
      | Inr role \<Rightarrow>
          get_user_permissions_loop user_roles (permissions \<union> set (get_role_permissions role)))"

definition get_user_permissions :: "string list \<Rightarrow> Permission set" where
  "get_user_permissions user_roles = get_user_permissions_loop user_roles {}"

text \<open>The roles that the names of a list resolve to.\<close>

definition recognized :: "string list \<Rightarrow> Role set" where
  "recognized user_roles = {role. \<exists>name \<in> set user_roles. Role_of_value name = Inr role}"

section \<open>Tenant-scoped loading (domains/crm/service.py)\<close>

text \<open>
  A UUID is only compared for equality. Of a company row the model keeps the primary key,
  the tenant and the name; the other columns play no part in \<open>get_company\<close>.
  The table is a map from primary key to row: \<open>BaseRepository.get\<close> selects the row whose
  id equals the argument and returns it or \<open>None\<close> (\<open>scalar_one_or_none\<close>).
\<close>

type_synonym UUID = nat

record Company =
  company_id :: UUID
  tenant_id :: UUID
  company_name :: string

type_synonym CompanyRepository = "UUID \<Rightarrow> Company option"

definition repository_get :: "CompanyRepository \<Rightarrow> UUID \<Rightarrow> Company option" where
  "repository_get repository ident = repository ident"

text \<open>
  \<open>CompanyService.get_company\<close>:
  \<open>if not company or company.tenant_id != tenant_id: raise NotFoundError("Company not found")\<close>.
\<close>

definition get_company :: "CompanyRepository \<Rightarrow> UUID \<Rightarrow> UUID \<Rightarrow> exn + Company" where
  "get_company repository cid tid =
     (case repository_get repository cid of
        None \<Rightarrow> Inl (NotFoundError_init ''Company not found'' None)
      | Some company \<Rightarrow>
          (if tenant_id company \<noteq> tid then Inl (NotFoundError_init ''Company not found'' None)
           else Inr company))"

section \<open>Password verification (core/security/password.py)\<close>

text \<open>
  The module-level hasher \<open>ph\<close> is an object of the argon2 package, which is not part of
  the repository: its two methods used here are parameters of the model. A call returns
  a value or raises an exception.
\<close>

record PasswordHasher =
  verify :: "string \<Rightarrow> string \<Rightarrow> exn + bool"
  check_needs_rehash :: "string \<Rightarrow> exn + bool"



text \<open>
  \<open>needs_rehash\<close>: \<open>try: return ph.check_needs_rehash(...) except Exception: return True\<close>.
  Every constructor of \<open>exn\<close> is a subclass of \<open>Exception\<close>, so the clause catches all.
\<close>

definition needs_rehash :: "PasswordHasher \<Rightarrow> string \<Rightarrow> exn + bool" where
  "needs_rehash ph hashed_password =
     (case check_needs_rehash ph hashed_password of
        Inl e \<Rightarrow> Inr True
      | Inr b \<Rightarrow> Inr b)"

text \<open>
  A hasher for evaluation: a stored hash is the text \<open>$argon2id$\<close> followed by the
  password; anything else is not a hash. It needs no rehash.
\<close>

definition toy_hasher :: PasswordHasher where
  "toy_hasher =
     \<lparr>verify = (\<lambda>h p. if take 10 h \<noteq> ''$argon2id$'' then Inl InvalidHashError
                      else if drop 10 h = p then Inr True else Inl VerifyMismatchError),
      check_needs_rehash = (\<lambda>h. if take 10 h \<noteq> ''$argon2id$'' then Inl InvalidHashError
                                else Inr False)\<rparr>"

section \<open>Claim values, instants and durations\<close>

text \<open>
  The values a decoded token payload holds are JSON values (numbers with a fraction and
  nested objects are not modelled). A claim map handed to the issuer may hold
  \<open>datetime\<close> objects as well: the issuer itself stores two.
  Strings are ASCII texts.
\<close>

datatype json = JNull | JBool bool | JInt int | JStr string | JList "json list"

datatype py_value = Json json | Datetime int

text \<open>
  A \<open>datetime\<close> (always in UTC here) is its number of microseconds since the epoch, a
  \<open>timedelta\<close> a number of microseconds. Both types are bounded: years 1 to 9999, and
  at most 999999999 days in either direction.
\<close>

type_synonym datetime = int
type_synonym timedelta = int

definition datetime_min :: datetime where
  "datetime_min = - 62135596800000000"

definition datetime_max :: datetime where
  "datetime_max = 253402300799999999"

definition timedelta_min :: timedelta where
  "timedelta_min = - 999999999 * 86400000000"

definition timedelta_max :: timedelta where
  "timedelta_max = 999999999 * 86400000000 + 86399999999"

text \<open>\<open>timedelta(minutes=m)\<close> and \<open>timedelta(days=d)\<close>.\<close>

definition timedelta_of :: "int \<Rightarrow> exn + timedelta" where
  "timedelta_of us =
     (if timedelta_min \<le> us \<and> us \<le> timedelta_max then Inr us else Inl DateRangeError)"

definition timedelta_minutes :: "int \<Rightarrow> exn + timedelta" where
  "timedelta_minutes m = timedelta_of (m * 60000000)"


text \<open>\<open>datetime + timedelta\<close>.\<close>

definition datetime_add :: "datetime \<Rightarrow> timedelta \<Rightarrow> exn + datetime" where
  "datetime_add t d =
     (if datetime_min \<le> t + d \<and> t + d \<le> datetime_max then Inr (t + d)
      else Inl DateRangeError)"

text \<open>Truth value of an object, as \<open>if x\<close> and \<open>not x\<close> test it.\<close>

fun truthy :: "json \<Rightarrow> bool" where
  "truthy JNull = False"
| "truthy (JBool b) = b"
| "truthy (JInt n) = (n \<noteq> 0)"
| "truthy (JStr s) = (s \<noteq> [])"
| "truthy (JList xs) = (xs \<noteq> [])"

text \<open>\<open>d.get(key)\<close>: the value, or \<open>None\<close> for a missing key.\<close>

definition dict_get :: "(string \<Rightarrow> json option) \<Rightarrow> string \<Rightarrow> json" where
  "dict_get d k = (case d k of None \<Rightarrow> JNull | Some v \<Rightarrow> v)"

text \<open>
  \<open>datetime.fromtimestamp(x, tz=timezone.utc)\<close>: an integer number of seconds (a boolean
  is an integer) gives the instant if it lies in the range of \<open>datetime\<close>; any other
  object is a \<open>TypeError\<close>.
\<close>

fun fromtimestamp :: "json \<Rightarrow> exn + datetime" where
  "fromtimestamp (JInt n) =
     (if datetime_min \<le> n * 1000000 \<and> n * 1000000 \<le> datetime_max then Inr (n * 1000000)
      else Inl DateRangeError)"
| "fromtimestamp (JBool b) = Inr (if b then 1000000 else 0)"
| "fromtimestamp v = Inl TypeError"

subsection \<open>Conversion to text and to integer\<close>



















section \<open>Tokens (core/security/jwt.py)\<close>

text \<open>The settings the token functions read (core/config/settings.py).\<close>

record Settings =
  SECRET_KEY :: string
  ALGORITHM :: string
  ACCESS_TOKEN_EXPIRE_MINUTES :: int
  REFRESH_TOKEN_EXPIRE_DAYS :: int

subsection \<open>The token library\<close>

text \<open>
  Modelled from the spec: the functions \<open>jwt.encode\<close> and \<open>jwt.decode\<close> of the package
  jose, which the repository imports and does not contain. The spec (sections 4.3 and 6)
  describes a token as a signed structure of header, claims and signature under a
  symmetric algorithm and a shared secret; decoding verifies the signature and the
  standard claims including expiry, and fails for a signature mismatch, a malformed
  structure or expiry. The signature is modelled symbolically: a token string is either
  the serialisation of a header algorithm and a claim set signed with a key, or some
  other text. Encoding writes a \<open>datetime\<close> claim as its whole number of seconds since the
  epoch. Decoding reads the clock in whole seconds. The spec leaves open what decoding
  does when \<open>exp\<close> equals that reading; the package rejects a token only if its \<open>exp\<close>
  is less than the reading, and the model follows the package. Validation of other
  registered claims is not modelled.
\<close>

datatype token =
    Jws (jws_alg: string) (jws_claims: "string \<Rightarrow> json option") (jws_key: string)
  | Malformed string

text \<open>
  Modelled from the spec: how \<open>jwt.encode\<close> of the absent package writes a claim value.
\<close>

fun wire :: "py_value \<Rightarrow> json" where
  "wire (Json j) = j"
| "wire (Datetime t) = JInt (t div 1000000)"

text \<open>
  Modelled from the spec: \<open>jwt.encode(claims, key, algorithm)\<close> of the absent package;
  it signs the claim set with the secret and the configured algorithm and returns the
  token.
\<close>

definition jwt_encode :: "(string \<Rightarrow> py_value option) \<Rightarrow> string \<Rightarrow> string \<Rightarrow> token" where
  "jwt_encode claims key algorithm = Jws algorithm (\<lambda>k. map_option wire (claims k)) key"

text \<open>
  Modelled from the spec: \<open>jwt.decode(token, key, algorithms)\<close> of the absent package;
  it fails with a \<open>JWTError\<close> for a malformed structure, for an algorithm that is not
  allowed, for a signature made with another key, and for an expired token.
\<close>

fun jwt_decode ::
  "token \<Rightarrow> string \<Rightarrow> string list \<Rightarrow> datetime \<Rightarrow> exn + (string \<Rightarrow> json option)" where
  "jwt_decode (Malformed s) key algorithms now = Inl (JWTError ''Not enough segments'')"
| "jwt_decode (Jws alg claims k) key algorithms now =
     (if alg \<notin> set algorithms then Inl (JWTError ''The specified alg value is not allowed'')
      else if k \<noteq> key then Inl (JWTError ''Signature verification failed.'')
      else
        (case claims ''exp'' of
           None \<Rightarrow> Inr claims
         | Some (JInt e) \<Rightarrow>
             (if e < now div 1000000 then Inl (JWTError ''Signature has expired.'')
              else Inr claims)
         | Some v \<Rightarrow> Inl (JWTError ''Expiration Time claim (exp) must be an integer.'')))"

subsection \<open>The functions of the module\<close>

text \<open>
  Each reading of the clock (\<open>datetime.now(timezone.utc)\<close>) is an argument, in the order
  of the readings. \<open>if expires_delta\<close> is false for \<open>None\<close> and for a zero duration.
\<close>

definition create_access_token ::
  "Settings \<Rightarrow> datetime \<Rightarrow> datetime \<Rightarrow> (string \<Rightarrow> py_value option) \<Rightarrow> timedelta option
     \<Rightarrow> exn + token" where
  "create_access_token settings now now_iat data expires_delta =
     (case (case expires_delta of
              Some d \<Rightarrow> (if d \<noteq> 0 then datetime_add now d
                         else (case timedelta_minutes (ACCESS_TOKEN_EXPIRE_MINUTES settings) of
                                 Inl e \<Rightarrow> Inl e | Inr m \<Rightarrow> datetime_add now m))
            | None \<Rightarrow> (case timedelta_minutes (ACCESS_TOKEN_EXPIRE_MINUTES settings) of
                         Inl e \<Rightarrow> Inl e | Inr m \<Rightarrow> datetime_add now m)) of
        Inl e \<Rightarrow> Inl e
      | Inr expire \<Rightarrow>
          Inr (jwt_encode
                 (data(''exp'' \<mapsto> Datetime expire, ''iat'' \<mapsto> Datetime now_iat,
                       ''type'' \<mapsto> Json (JStr ''access'')))
                 (SECRET_KEY settings) (ALGORITHM settings)))"


text \<open>
  \<open>decode_token\<close>: a \<open>JWTError\<close> of the library becomes
  \<open>AuthenticationError("Invalid or expired token", details={"error": str(e)})\<close>.
\<close>

definition decode_token ::
  "Settings \<Rightarrow> datetime \<Rightarrow> token \<Rightarrow> exn + (string \<Rightarrow> json option)" where
  "decode_token settings now tok =
     (case jwt_decode tok (SECRET_KEY settings) [ALGORITHM settings] now of
        Inl (JWTError m) \<Rightarrow>
          Inl (AuthenticationError_init ''Invalid or expired token'' (Some [(''error'', m)]))
      | Inl e \<Rightarrow> Inl e
      | Inr payload \<Rightarrow> Inr payload)"


text \<open>The clause \<open>except AuthenticationError\<close>.\<close>

fun is_AuthenticationError :: "exn \<Rightarrow> bool" where
  "is_AuthenticationError (Nexus x) = (kind x = AuthenticationError)"
| "is_AuthenticationError e = False"

text \<open>
  \<open>get_token_expiry\<close>: the \<open>try\<close> block holds the decoding and the conversion of the
  \<open>exp\<close> claim; an \<open>AuthenticationError\<close> leads to \<open>return None\<close>, as does a missing or
  false \<open>exp\<close>; any other exception propagates.
\<close>

definition get_token_expiry :: "Settings \<Rightarrow> datetime \<Rightarrow> token \<Rightarrow> exn + datetime option" where
  "get_token_expiry settings now tok =
     (case decode_token settings now tok of
        Inl e \<Rightarrow> (if is_AuthenticationError e then Inr None else Inl e)
      | Inr payload \<Rightarrow>
          (let exp_timestamp = dict_get payload ''exp'' in
           if truthy exp_timestamp then
             (case fromtimestamp exp_timestamp of
                Inl e \<Rightarrow> (if is_AuthenticationError e then Inr None else Inl e)
              | Inr expiry \<Rightarrow> Inr (Some expiry))
           else Inr None))"

text \<open>
  \<open>is_token_expired\<close>: \<open>now\<close> is the clock reading of the decoding, \<open>now_cmp\<close> the later
  reading in \<open>return expiry < datetime.now(timezone.utc)\<close>.
\<close>

definition is_token_expired :: "Settings \<Rightarrow> datetime \<Rightarrow> datetime \<Rightarrow> token \<Rightarrow> exn + bool" where
  "is_token_expired settings now now_cmp tok =
     (case get_token_expiry settings now tok of
        Inl e \<Rightarrow> Inl e
      | Inr None \<Rightarrow> Inr True
      | Inr (Some expiry) \<Rightarrow> Inr (expiry < now_cmp))"

section \<open>Current user (domains/identity/dependencies.py)\<close>


text \<open>Settings, a claim map and instants for evaluation.\<close>

definition example_settings :: Settings where
  "example_settings =
     \<lparr>SECRET_KEY = ''0123456789abcdef0123456789abcdef'', ALGORITHM = ''HS256'',
      ACCESS_TOKEN_EXPIRE_MINUTES = 60, REFRESH_TOKEN_EXPIRE_DAYS = 30\<rparr>"

definition example_claims :: "string \<Rightarrow> py_value option" where
  "example_claims = [''sub'' \<mapsto> Json (JStr ''5''), ''roles'' \<mapsto> Json (JList [JStr ''user''])]"

definition example_now :: datetime where
  "example_now = 1700000000000000"


text \<open>
  An access token that expires at \<open>example_now\<close>, issued one second earlier, and a
  refresh token issued at \<open>example_now\<close>.
\<close>

definition example_access_token :: token where
  "example_access_token =
     jwt_encode
       (example_claims(''exp'' \<mapsto> Datetime example_now,
                       ''iat'' \<mapsto> Datetime (example_now - 1000000),
                       ''type'' \<mapsto> Json (JStr ''access'')))
       (SECRET_KEY example_settings) (ALGORITHM example_settings)"

definition example_refresh_token :: token where
  "example_refresh_token =
     jwt_encode
       (example_claims(''exp'' \<mapsto> Datetime (example_now + 30 * 86400000000),
                       ''iat'' \<mapsto> Datetime example_now,
                       ''type'' \<mapsto> Json (JStr ''refresh'')))
       (SECRET_KEY example_settings) (ALGORITHM example_settings)"

section \<open>Properties of the permission catalogue\<close>

lemma get_user_permissions_loop_union:
  "get_user_permissions_loop user_roles acc =
     acc \<union> (\<Union>role \<in> recognized user_roles. set (get_role_permissions role))"
proof (induction user_roles arbitrary: acc)
  case Nil
  show ?case by (simp add: recognized_def)
next
  case (Cons name rest)
  have split: "recognized (name # rest) =
      (case Role_of_value name of Inl e \<Rightarrow> {} | Inr role \<Rightarrow> {role}) \<union> recognized rest"
    by (auto simp: recognized_def split: sum.splits)
  show ?case
    by (cases "Role_of_value name") (auto simp: Cons.IH split)
qed

text \<open>
  C2: every permission of the closed enumeration is in the permission list of
  \<open>super_admin\<close>.
\<close>

theorem super_admin_grants_everything:
  "p \<in> set (get_role_permissions SUPER_ADMIN)"
  by (cases p) (simp_all add: get_role_permissions_def list_Permission_def)

lemma Role_of_value_error: "Role_of_value name = Inl e \<Longrightarrow> e = ValueError"
  by (simp add: Role_of_value_def split: if_splits)

lemma recognized_none:
  "\<forall>name \<in> set user_roles. Role_of_value name = Inl ValueError \<Longrightarrow> recognized user_roles = {}"
  by (auto simp: recognized_def)

lemma recognized_single:
  assumes "name \<in> set user_roles" and "Role_of_value name = Inr role"
    and "\<forall>other \<in> set user_roles. other \<noteq> name \<longrightarrow> Role_of_value other = Inl ValueError"
  shows "recognized user_roles = {role}"
proof
  show "recognized user_roles \<subseteq> {role}"
  proof
    fix r assume "r \<in> recognized user_roles"
    then obtain n where n: "n \<in> set user_roles" "Role_of_value n = Inr r"
      by (auto simp: recognized_def)
    have "n = name"
    proof (rule ccontr)
      assume "n \<noteq> name"
      with assms(3) n(1) have "Role_of_value n = Inl ValueError" by blast
      with n(2) show False by simp
    qed
    with n(2) assms(2) show "r \<in> {role}" by simp
  qed
  show "{role} \<subseteq> recognized user_roles"
    using assms(1,2) by (auto simp: recognized_def)
qed

lemma has_permission_recognized:
  "has_permission user_roles p \<longleftrightarrow>
     (\<exists>role \<in> recognized user_roles. p \<in> set (get_role_permissions role))"
proof (induction user_roles)
  case Nil
  show ?case by (simp add: recognized_def)
next
  case (Cons name rest)
  have split: "recognized (name # rest) =
      (case Role_of_value name of Inl e \<Rightarrow> {} | Inr role \<Rightarrow> {role}) \<union> recognized rest"
    by (auto simp: recognized_def split: sum.splits)
  show ?case
    by (cases "Role_of_value name") (auto simp: Cons.IH split)
qed

text \<open>
  C3: \<open>get_user_permissions\<close> returns exactly the union of the permission sets of the
  roles that the names resolve to. The only error of the resolution is \<open>ValueError\<close>, which
  the loop catches, so an unrecognized name contributes nothing and nothing is raised.
  With one recognized name among unrecognized ones the result is that role's permission
  set; with unrecognized names only it is empty.
\<close>

theorem get_user_permissions_is_union:
  "get_user_permissions user_roles =
       (\<Union>role \<in> recognized user_roles. set (get_role_permissions role))
   \<and> (\<forall>name e. Role_of_value name = Inl e \<longrightarrow> e = ValueError)
   \<and> (\<forall>name role.
         name \<in> set user_roles \<and> Role_of_value name = Inr role
         \<and> (\<forall>other \<in> set user_roles. other \<noteq> name \<longrightarrow> Role_of_value other = Inl ValueError)
         \<longrightarrow> get_user_permissions user_roles = set (get_role_permissions role))
   \<and> ((\<forall>name \<in> set user_roles. Role_of_value name = Inl ValueError)
         \<longrightarrow> get_user_permissions user_roles = {})"
proof -
  have u: "get_user_permissions user_roles =
       (\<Union>role \<in> recognized user_roles. set (get_role_permissions role))"
    by (simp add: get_user_permissions_def get_user_permissions_loop_union)
  have one: "get_user_permissions user_roles = set (get_role_permissions role)"
    if "name \<in> set user_roles" "Role_of_value name = Inr role"
       "\<forall>other \<in> set user_roles. other \<noteq> name \<longrightarrow> Role_of_value other = Inl ValueError"
    for name role
    using recognized_single [OF that] by (simp add: u)
  have none: "get_user_permissions user_roles = {}"
    if "\<forall>name \<in> set user_roles. Role_of_value name = Inl ValueError"
    using recognized_none [OF that] by (simp add: u)
  from u one none Role_of_value_error show ?thesis by blast
qed

theorem get_user_permissions_is_union_witness:
  "get_user_permissions [''root'', ''guest'', ''Admin''] = {PROJECT_READ, TASK_READ}
   \<and> get_user_permissions [''root'', ''Admin''] = {}
   \<and> get_user_permissions [''guest'', ''nobody'', ''user''] =
       set (get_role_permissions GUEST) \<union> set (get_role_permissions USER)"
proof -
  have r1: "recognized [''root'', ''guest'', ''Admin''] = {GUEST}"
    by (auto simp: recognized_def Role_of_value_def)
  have r3: "recognized [''guest'', ''nobody'', ''user''] = {GUEST, USER}"
    by (auto simp: recognized_def Role_of_value_def)
  have a: "get_user_permissions [''root'', ''guest'', ''Admin''] = {PROJECT_READ, TASK_READ}"
    using get_user_permissions_is_union [of "[''root'', ''guest'', ''Admin'']"]
    by (simp add: r1 get_role_permissions_def)
  have h: "\<forall>name \<in> set [''root'', ''Admin'']. Role_of_value name = Inl ValueError"
    by (simp add: Role_of_value_def)
  have b: "get_user_permissions [''root'', ''Admin''] = {}"
    using get_user_permissions_is_union [of "[''root'', ''Admin'']"] h by blast
  have c: "get_user_permissions [''guest'', ''nobody'', ''user''] =
       set (get_role_permissions GUEST) \<union> set (get_role_permissions USER)"
    using get_user_permissions_is_union [of "[''guest'', ''nobody'', ''user'']"]
    by (simp add: r3)
  from a b c show ?thesis by simp
qed

text \<open>
  C8: the short-circuiting scan of \<open>has_permission\<close> answers true exactly when the
  permission is in \<open>get_user_permissions\<close> of the same list; with unrecognized names only
  it answers false.
\<close>

theorem has_permission_iff_member:
  "(has_permission user_roles p \<longleftrightarrow> p \<in> get_user_permissions user_roles)
   \<and> ((\<forall>name \<in> set user_roles. Role_of_value name = Inl ValueError)
         \<longrightarrow> \<not> has_permission user_roles p)"
proof -
  have eq: "has_permission user_roles p \<longleftrightarrow> p \<in> get_user_permissions user_roles"
    by (simp add: has_permission_recognized get_user_permissions_def
        get_user_permissions_loop_union)
  have none: "\<not> has_permission user_roles p"
    if "\<forall>name \<in> set user_roles. Role_of_value name = Inl ValueError"
    using recognized_none [OF that] by (simp add: has_permission_recognized)
  from eq none show ?thesis by blast
qed

theorem has_permission_iff_member_witness:
  "Role_of_value ''owner'' = Inl ValueError \<and> Role_of_value ''USER'' = Inl ValueError
   \<and> \<not> has_permission [''owner'', ''USER''] CONTACT_READ
   \<and> CONTACT_READ \<notin> get_user_permissions [''owner'', ''USER'']"
proof -
  have h: "\<forall>name \<in> set [''owner'', ''USER'']. Role_of_value name = Inl ValueError"
    by (simp add: Role_of_value_def)
  show ?thesis
    using h has_permission_iff_member [of "[''owner'', ''USER'']" CONTACT_READ] by simp
qed

text \<open>
  C9: the table is an inclusion chain guest \<open>\<subseteq>\<close> user \<open>\<subseteq>\<close> manager \<open>\<subseteq>\<close> admin \<open>\<subseteq>\<close>
  super_admin, and developer \<open>\<subseteq>\<close> manager; so a permission of a lower role of the chain
  is a permission of every higher role.
\<close>

theorem role_permissions_chain:
  "set (get_role_permissions GUEST) \<subseteq> set (get_role_permissions USER)
   \<and> set (get_role_permissions USER) \<subseteq> set (get_role_permissions MANAGER)
   \<and> set (get_role_permissions MANAGER) \<subseteq> set (get_role_permissions ADMIN)
   \<and> set (get_role_permissions ADMIN) \<subseteq> set (get_role_permissions SUPER_ADMIN)
   \<and> set (get_role_permissions DEVELOPER) \<subseteq> set (get_role_permissions MANAGER)
   \<and> set (get_role_permissions GUEST) \<subseteq> set (get_role_permissions MANAGER)
   \<and> set (get_role_permissions GUEST) \<subseteq> set (get_role_permissions ADMIN)
   \<and> set (get_role_permissions GUEST) \<subseteq> set (get_role_permissions SUPER_ADMIN)
   \<and> set (get_role_permissions USER) \<subseteq> set (get_role_permissions ADMIN)
   \<and> set (get_role_permissions USER) \<subseteq> set (get_role_permissions SUPER_ADMIN)
   \<and> set (get_role_permissions MANAGER) \<subseteq> set (get_role_permissions SUPER_ADMIN)
   \<and> set (get_role_permissions DEVELOPER) \<subseteq> set (get_role_permissions ADMIN)
   \<and> set (get_role_permissions DEVELOPER) \<subseteq> set (get_role_permissions SUPER_ADMIN)"
  by (simp add: get_role_permissions_def list_Permission_def)

section \<open>Properties of tenant-scoped loading\<close>

text \<open>
  C1: \<open>get_company\<close> raises \<open>NotFoundError\<close> when no company has the id and when the
  company belongs to another tenant, and it is the same exception value in both cases
  (kind, message, status code and details); otherwise the company is returned.
\<close>

theorem get_company_not_found_uniform:
  "(repository_get repository cid = None \<longrightarrow>
       get_company repository cid tid = Inl (NotFoundError_init ''Company not found'' None))
   \<and> (\<forall>company. repository_get repository cid = Some company \<and> tenant_id company \<noteq> tid \<longrightarrow>
       get_company repository cid tid = Inl (NotFoundError_init ''Company not found'' None))
   \<and> (\<forall>company. repository_get repository cid = Some company \<and> tenant_id company = tid \<longrightarrow>
       get_company repository cid tid = Inr company)
   \<and> NotFoundError_init ''Company not found'' None =
       Nexus \<lparr>kind = NotFoundError, message = ''Company not found not found'',
              status_code = 404, details = []\<rparr>"
  by (simp add: get_company_def NotFoundError_init_def NexusHubException_def)

theorem get_company_not_found_uniform_witness:
  "get_company [7 \<mapsto> \<lparr>company_id = 7, tenant_id = 1, company_name = ''Acme''\<rparr>] 8 2 =
       Inl (NotFoundError_init ''Company not found'' None)
   \<and> get_company [7 \<mapsto> \<lparr>company_id = 7, tenant_id = 1, company_name = ''Acme''\<rparr>] 7 2 =
       Inl (NotFoundError_init ''Company not found'' None)
   \<and> get_company [7 \<mapsto> \<lparr>company_id = 7, tenant_id = 1, company_name = ''Acme''\<rparr>] 7 1 =
       Inr \<lparr>company_id = 7, tenant_id = 1, company_name = ''Acme''\<rparr>"
  using get_company_not_found_uniform
          [of "[7 \<mapsto> \<lparr>company_id = 7, tenant_id = 1, company_name = ''Acme''\<rparr>]" 8 2]
        get_company_not_found_uniform
          [of "[7 \<mapsto> \<lparr>company_id = 7, tenant_id = 1, company_name = ''Acme''\<rparr>]" 7 2]
        get_company_not_found_uniform
          [of "[7 \<mapsto> \<lparr>company_id = 7, tenant_id = 1, company_name = ''Acme''\<rparr>]" 7 1]
  by (simp add: repository_get_def)

section \<open>Properties of password verification\<close>




text \<open>
  C10: \<open>needs_rehash\<close> returns a boolean for every hasher and every stored hash, and the
  boolean is \<open>True\<close> whenever the inspection of the hash raises, whatever the exception.
\<close>

theorem needs_rehash_total:
  "(\<exists>b. needs_rehash ph hashed_password = Inr b)
   \<and> (\<forall>e. check_needs_rehash ph hashed_password = Inl e \<longrightarrow>
         needs_rehash ph hashed_password = Inr True)
   \<and> (\<forall>b. check_needs_rehash ph hashed_password = Inr b \<longrightarrow>
         needs_rehash ph hashed_password = Inr b)"
  by (cases "check_needs_rehash ph hashed_password") (auto simp: needs_rehash_def)

theorem needs_rehash_total_witness:
  "check_needs_rehash toy_hasher ''garbage'' = Inl InvalidHashError
   \<and> needs_rehash toy_hasher ''garbage'' = Inr True
   \<and> needs_rehash toy_hasher ''$argon2id$pw'' = Inr False"
proof -
  have g: "check_needs_rehash toy_hasher ''garbage'' = Inl InvalidHashError"
    by (simp add: toy_hasher_def)
  have f: "check_needs_rehash toy_hasher ''$argon2id$pw'' = Inr False"
    by (simp add: toy_hasher_def)
  from needs_rehash_total [of toy_hasher "''garbage''"] g
  have a: "needs_rehash toy_hasher ''garbage'' = Inr True" by blast
  from needs_rehash_total [of toy_hasher "''$argon2id$pw''"] f
  have b: "needs_rehash toy_hasher ''$argon2id$pw'' = Inr False" by blast
  from g a b show ?thesis by simp
qed

section \<open>Properties of tokens and of the current user\<close>


lemma jwt_decode_error:
  "jwt_decode tok key algorithms now = Inl e \<Longrightarrow> \<exists>m. e = JWTError m"
  by (cases tok) (auto split: if_splits option.splits json.splits)

lemma decode_token_error:
  "decode_token settings now tok = Inl e \<Longrightarrow> is_AuthenticationError e"
proof -
  assume a: "decode_token settings now tok = Inl e"
  show ?thesis
  proof (cases "jwt_decode tok (SECRET_KEY settings) [ALGORITHM settings] now")
    case (Inl x)
    then obtain m where "x = JWTError m" using jwt_decode_error by blast
    with Inl a show ?thesis
      by (auto simp: decode_token_def AuthenticationError_init_def NexusHubException_def)
  next
    case (Inr p)
    with a show ?thesis by (simp add: decode_token_def)
  qed
qed





lemmas example_defs = example_settings_def example_claims_def example_now_def
  example_access_token_def example_refresh_token_def


text \<open>
  C5 (as amended): \<open>is_token_expired\<close> returns true when the expiry cannot be obtained
  (the token does not decode, or it has no \<open>exp\<close> claim or a false one) and when the
  expiry lies strictly before the current instant; for a token that decodes and whose
  \<open>exp\<close> equals the current instant exactly it returns false.
\<close>

theorem is_token_expired_strict:
  "(\<forall>e. decode_token settings now tok = Inl e \<longrightarrow>
        is_token_expired settings now now_cmp tok = Inr True)
   \<and> (\<forall>payload. decode_token settings now tok = Inr payload
          \<and> \<not> truthy (dict_get payload ''exp'') \<longrightarrow>
        is_token_expired settings now now_cmp tok = Inr True)
   \<and> (\<forall>payload e. decode_token settings now tok = Inr payload
          \<and> payload ''exp'' = Some (JInt e) \<and> e \<noteq> 0
          \<and> datetime_min \<le> e * 1000000 \<and> e * 1000000 \<le> datetime_max \<longrightarrow>
        is_token_expired settings now now_cmp tok = Inr (e * 1000000 < now_cmp))
   \<and> (\<forall>payload e. decode_token settings now tok = Inr payload
          \<and> payload ''exp'' = Some (JInt e) \<and> e \<noteq> 0
          \<and> datetime_min \<le> e * 1000000 \<and> e * 1000000 \<le> datetime_max
          \<and> e * 1000000 = now_cmp \<longrightarrow>
        is_token_expired settings now now_cmp tok = Inr False)"
proof -
  have a: "is_token_expired settings now now_cmp tok = Inr True"
    if "decode_token settings now tok = Inl e" for e
    using that decode_token_error [OF that]
    by (simp add: is_token_expired_def get_token_expiry_def)
  have b: "is_token_expired settings now now_cmp tok = Inr True"
    if "decode_token settings now tok = Inr payload" "\<not> truthy (dict_get payload ''exp'')"
    for payload
    using that by (simp add: is_token_expired_def get_token_expiry_def)
  have c: "is_token_expired settings now now_cmp tok = Inr (e * 1000000 < now_cmp)"
    if "decode_token settings now tok = Inr payload" "payload ''exp'' = Some (JInt e)" "e \<noteq> 0"
       "datetime_min \<le> e * 1000000" "e * 1000000 \<le> datetime_max"
    for payload e
    using that by (simp add: is_token_expired_def get_token_expiry_def dict_get_def)
  from a b c show ?thesis by auto
qed

theorem is_token_expired_strict_witness:
  "is_token_expired example_settings example_now example_now (Malformed ''garbage'') = Inr True
   \<and> is_token_expired example_settings example_now (example_now + 1) example_access_token
       = Inr True
   \<and> is_token_expired example_settings (example_now - 1) (example_now - 1) example_access_token
       = Inr False"
proof -
  have m: "decode_token example_settings example_now (Malformed ''garbage'') =
      Inl (AuthenticationError_init ''Invalid or expired token''
             (Some [(''error'', ''Not enough segments'')]))"
    by (simp add: decode_token_def)
  have d: "decode_token example_settings example_now example_access_token =
      Inr (jws_claims example_access_token)"
    by (simp add: decode_token_def jwt_encode_def example_defs)
  have d': "decode_token example_settings (example_now - 1) example_access_token =
      Inr (jws_claims example_access_token)"
    by (simp add: decode_token_def jwt_encode_def example_defs)
  have e: "jws_claims example_access_token ''exp'' = Some (JInt 1700000000)"
    by (simp add: jwt_encode_def example_defs)
  have r: "(1700000000::int) \<noteq> 0" "datetime_min \<le> 1700000000 * 1000000"
    "1700000000 * 1000000 \<le> datetime_max"
    by (simp_all add: datetime_min_def datetime_max_def)
  from is_token_expired_strict [of example_settings example_now "Malformed ''garbage''" example_now] m
  have a: "is_token_expired example_settings example_now example_now (Malformed ''garbage'') = Inr True"
    by blast
  from is_token_expired_strict [of example_settings example_now example_access_token "example_now + 1"]
    d e r
  have "is_token_expired example_settings example_now (example_now + 1) example_access_token
       = Inr (1700000000 * 1000000 < example_now + 1)"
    by blast
  then have b: "is_token_expired example_settings example_now (example_now + 1) example_access_token
       = Inr True"
    by (simp add: example_now_def)
  from is_token_expired_strict [of example_settings "example_now - 1" example_access_token "example_now - 1"]
    d' e r
  have "is_token_expired example_settings (example_now - 1) (example_now - 1) example_access_token
       = Inr (1700000000 * 1000000 < example_now - 1)"
    by blast
  then have c: "is_token_expired example_settings (example_now - 1) (example_now - 1) example_access_token
       = Inr False"
    by (simp add: example_now_def)
  from a b c show ?thesis by simp
qed

text \<open>
  C5 as stated fails at the boundary: the access token issued one second before
  \<open>example_now\<close> with a lifetime of one second still decodes at \<open>example_now\<close>, its expiry
  is \<open>example_now\<close>, and \<open>expiry < now\<close> is false there.
\<close>

theorem is_token_expired_boundary_counterexample:
  "create_access_token example_settings (example_now - 1000000) (example_now - 1000000)
       example_claims (Some 1000000) = Inr example_access_token
   \<and> get_token_expiry example_settings example_now example_access_token = Inr (Some example_now)
   \<and> is_token_expired example_settings example_now example_now example_access_token = Inr False"
  by (simp add: create_access_token_def datetime_add_def datetime_min_def datetime_max_def
      is_token_expired_def get_token_expiry_def decode_token_def jwt_encode_def dict_get_def
      example_defs)






end
